theory Spec2Isabelle
  imports Main "HOL-Library.Sublist"
begin

section \<open>The Gemini service: values, errors and the backend\<close>

text \<open>
  The development embeds the latest revision of the service module
  (\<^verbatim>\<open>services/gemini.ts\<close> with \<^verbatim>\<open>generateImage\<close>): the credential check, the error
  classifier \<^verbatim>\<open>handleGeminiError\<close>, and the four operations \<^verbatim>\<open>chatWithGemini\<close>,
  \<^verbatim>\<open>analyzeImage\<close>, \<^verbatim>\<open>editImage\<close> and \<^verbatim>\<open>generateImage\<close> with their retry and
  fallback loops. Console output is the only effect left out; backend calls and delays
  are recorded, in order, in a trace.
\<close>

subsection \<open>JavaScript values and error objects\<close>

text \<open>
  The fields \<^verbatim>\<open>status\<close> and \<^verbatim>\<open>code\<close> of a caught error are untyped in the source
  (\<^verbatim>\<open>error: any\<close>): absent, a number or a string. Strings are byte lists; every marker
  the source searches for is ASCII, so a search over bytes finds what a search over
  UTF-16 code units finds.
\<close>

datatype jsval = Undefined | Num int | Str string

fun truthy :: "jsval \<Rightarrow> bool" where
  "truthy Undefined = False"
| "truthy (Num n) = (n \<noteq> 0)"
| "truthy (Str s) = (s \<noteq> [])"

text \<open>The operator \<^verbatim>\<open>a || b\<close> on two such values.\<close>

definition js_or :: "jsval \<Rightarrow> jsval \<Rightarrow> jsval" where
  "js_or a b = (if truthy a then a else b)"

text \<open>
  An error object: its \<^verbatim>\<open>name\<close>, its \<^verbatim>\<open>message\<close> (\<open>None\<close> when the thrown object
  has none), the fields \<^verbatim>\<open>status\<close> and \<^verbatim>\<open>code\<close>, and the \<^verbatim>\<open>details\<close> a
  \<^verbatim>\<open>GeminiError\<close> may keep (the error it was made from).
\<close>

datatype js_error =
  JsError (name: string) (message: "string option") (status: jsval) (code: jsval)
    (details: "js_error option")

text \<open>\<^verbatim>\<open>new Error(msg)\<close> and \<^verbatim>\<open>new GeminiError(msg, code, details)\<close>.\<close>

definition Error :: "string \<Rightarrow> js_error" where
  "Error msg = JsError ''Error'' (Some msg) Undefined Undefined None"

definition GeminiError :: "string \<Rightarrow> string \<Rightarrow> js_error option \<Rightarrow> js_error" where
  "GeminiError msg c d = JsError ''GeminiError'' (Some msg) Undefined (Str c) d"

text \<open>\<^verbatim>\<open>String.prototype.includes\<close>: the needle occurs as a contiguous run.\<close>

fun startsWith :: "string \<Rightarrow> string \<Rightarrow> bool" where
  "startsWith s [] = True"
| "startsWith [] (c # cs) = False"
| "startsWith (x # xs) (c # cs) = (x = c \<and> startsWith xs cs)"

fun includes_str :: "string \<Rightarrow> string \<Rightarrow> bool" where
  "includes_str [] needle = (needle = [])"
| "includes_str (x # xs) needle = (startsWith (x # xs) needle \<or> includes_str xs needle)"

subsection \<open>The credential\<close>

text \<open>
  \<^verbatim>\<open>apiKey\<close> is the module constant read from the environment: \<open>None\<close> when the
  variable is not set. \<^verbatim>\<open>getGeminiModel\<close> throws when it is absent or empty and
  otherwise builds the client, here the key it holds.
\<close>

definition getGeminiModel :: "string option \<Rightarrow> js_error + string" where
  "getGeminiModel apiKey =
     (case apiKey of
        None \<Rightarrow> Inl (Error ''GEMINI_API_KEY is not set'')
      | Some k \<Rightarrow> if k = [] then Inl (Error ''GEMINI_API_KEY is not set'') else Inr k)"

subsection \<open>Error classification\<close>

text \<open>
  \<^verbatim>\<open>handleGeminiError\<close> never returns: the value of the model is the
  \<^verbatim>\<open>GeminiError\<close> it throws. The two local constants of the source are
  \<open>handled_message\<close> (\<^verbatim>\<open>error.message || "An unexpected error occurred"\<close>) and
  \<open>handled_status\<close> (\<^verbatim>\<open>error.status || error.code\<close>).
\<close>

definition handled_message :: "js_error \<Rightarrow> string" where
  "handled_message e =
     (case message e of
        None \<Rightarrow> ''An unexpected error occurred''
      | Some m \<Rightarrow> if m = [] then ''An unexpected error occurred'' else m)"

definition handled_status :: "js_error \<Rightarrow> jsval" where
  "handled_status e = js_or (status e) (code e)"

definition handleGeminiError :: "js_error \<Rightarrow> js_error" where
  "handleGeminiError e =
     (let msg = handled_message e; st = handled_status e in
      if includes_str msg ''API_KEY_INVALID'' \<or> includes_str msg ''API key not valid'' then
        GeminiError ''The provided API key is invalid. Please check your configuration.''
          ''AUTH_ERROR'' None
      else if includes_str msg ''SAFETY'' \<or> includes_str msg ''blocked'' then
        GeminiError
          ''The request was blocked by safety filters. Please try a different prompt.''
          ''SAFETY_ERROR'' None
      else if st = Num 429 \<or> includes_str msg ''quota'' then
        GeminiError
          ''Rate limit exceeded. The system is currently busy. Please wait about 30-60 seconds before trying again.''
          ''RATE_LIMIT'' None
      else if includes_str msg ''network'' \<or> includes_str msg ''fetch'' then
        GeminiError ''Network error. Please check your internet connection.''
          ''NETWORK_ERROR'' None
      else GeminiError msg ''UNKNOWN_ERROR'' (Some e))"

subsection \<open>Requests, responses and the backend\<close>

text \<open>
  Modelled from the spec: the request and response types of the client library are not
  part of the sources. A content part carries an inline payload, a text, or both; a
  response has an optional text and an optional list of result candidates, each holding
  a content whose list of parts may be absent (the source reads
  \<^verbatim>\<open>candidates[0].content.parts || []\<close>).
\<close>

record inline_data =
  data :: string
  mimeType :: string

record part =
  inlineData :: "inline_data option"
  text_part :: "string option"

record content =
  parts :: "part list option"

record candidate =
  content :: content

record response =
  text_resp :: "string option"
  candidates :: "candidate list option"

text \<open>
  A call is either \<^verbatim>\<open>chat.sendMessage\<close> on a chat created for a model with a system
  instruction, or \<^verbatim>\<open>ai.models.generateContent\<close> for a model with a list of parts.
\<close>

datatype request =
  SendMessage string string string
| GenerateContent string "part list"

datatype reply = Responds response | Fails js_error

text \<open>
  The backend is any sequence of outcomes: the reply to a call may depend on how many
  calls the operation has issued before it and on the request.
\<close>

type_synonym backend = "nat \<Rightarrow> request \<Rightarrow> reply"

text \<open>What an operation does besides computing: backend calls and delays, in order.\<close>

datatype event = Call request | Delay int

fun is_Call :: "event \<Rightarrow> bool" where
  "is_Call (Call r) = True"
| "is_Call (Delay ms) = False"

definition ncalls :: "event list \<Rightarrow> nat" where
  "ncalls tr = length (filter is_Call tr)"

text \<open>\<^verbatim>\<open>await delay(ms)\<close>.\<close>

definition delay :: "int \<Rightarrow> event list \<Rightarrow> event list" where
  "delay ms tr = tr @ [Delay ms]"

text \<open>Issuing a call: the reply of the backend and the trace with the call recorded.\<close>

definition issue :: "backend \<Rightarrow> request \<Rightarrow> event list \<Rightarrow> reply \<times> event list" where
  "issue backend req tr = (backend (ncalls tr) req, tr @ [Call req])"

text \<open>
  How an asynchronous function of the source ends: it returns a value, it falls off its
  end and returns \<^verbatim>\<open>undefined\<close>, it throws an error object, or it throws the
  \<^verbatim>\<open>TypeError\<close> of reading a property of \<^verbatim>\<open>null\<close>.
\<close>

datatype 'a outcome = Returns 'a | ReturnsUndefined | Throws js_error | ThrowsTypeError

subsection \<open>The retry predicates\<close>

text \<open>
  \<^verbatim>\<open>errMsg = error.message || ""\<close> and the local \<^verbatim>\<open>isRateLimit\<close> of
  \<^verbatim>\<open>chatWithGemini\<close>, \<^verbatim>\<open>editImage\<close> and \<^verbatim>\<open>analyzeImage\<close> (the same expression in
  the three functions).
\<close>

definition errMsg :: "js_error \<Rightarrow> string" where
  "errMsg e = (case message e of None \<Rightarrow> [] | Some m \<Rightarrow> m)"

definition isRateLimit :: "js_error \<Rightarrow> bool" where
  "isRateLimit e =
     (includes_str (errMsg e) ''429'' \<or> includes_str (errMsg e) ''quota''
      \<or> includes_str (errMsg e) ''Rate limit'')"

text \<open>The local \<^verbatim>\<open>isRateLimit\<close> of \<^verbatim>\<open>generateImageWithRetry\<close>.\<close>

definition isRateLimit_generate :: "js_error \<Rightarrow> bool" where
  "isRateLimit_generate e =
     (status e = Num 429 \<or>
      (case message e of
         None \<Rightarrow> False
       | Some m \<Rightarrow> m \<noteq> [] \<and>
           (includes_str m ''429'' \<or> includes_str m ''quota'' \<or> includes_str m ''Rate limit'')))"

section \<open>The four operations\<close>

subsection \<open>chatWithGemini\<close>

definition systemInstruction :: string where
  "systemInstruction = ''You are mova ai, an advanced multimodal AI system. You are precise, analytical, and strategic. You break down complex tasks into structured steps. You are professional and confident.''"

definition chat_models :: "string list" where
  "chat_models = [''gemini-3.1-pro-preview'', ''gemini-3-flash-preview'', ''gemini-flash-lite-latest'']"

text \<open>
  What the \<^verbatim>\<open>try\<close> block makes of a reply: the text, or the error the \<^verbatim>\<open>catch\<close>
  block receives. A text that is absent or empty is falsy.
\<close>

definition chat_reply :: "reply \<Rightarrow> js_error + string" where
  "chat_reply r =
     (case r of
        Fails e \<Rightarrow> Inl e
      | Responds resp \<Rightarrow>
          (case text_resp resp of
             None \<Rightarrow> Inl (GeminiError ''The model returned an empty response.'' ''EMPTY_RESPONSE'' None)
           | Some t \<Rightarrow>
               if t = [] then
                 Inl (GeminiError ''The model returned an empty response.'' ''EMPTY_RESPONSE'' None)
               else Inr t))"

text \<open>
  The call of one iteration: \<^verbatim>\<open>ai.chats.create\<close> for the model, with the system
  instruction, then \<^verbatim>\<open>chat.sendMessage\<close>.
\<close>

definition chat_request :: "string \<Rightarrow> string \<Rightarrow> request" where
  "chat_request model msg = SendMessage model systemInstruction msg"

text \<open>The \<^verbatim>\<open>try\<close> block of one iteration: the client is built before the call.\<close>

definition chat_try ::
  "string option \<Rightarrow> backend \<Rightarrow> string \<Rightarrow> string \<Rightarrow> event list \<Rightarrow> (js_error + string) \<times> event list" where
  "chat_try apiKey backend model msg tr =
     (case getGeminiModel apiKey of
        Inl e \<Rightarrow> (Inl e, tr)
      | Inr ai \<Rightarrow>
          (case issue backend (chat_request model msg) tr of
             (r, tr') \<Rightarrow> (chat_reply r, tr')))"

text \<open>
  The \<^verbatim>\<open>for\<close> loop over the candidate models, with its index \<open>i\<close> and the variable
  \<^verbatim>\<open>lastError\<close>; after the loop the source calls \<^verbatim>\<open>handleGeminiError(lastError)\<close>,
  which reads a property of \<^verbatim>\<open>null\<close> when no error was stored.
\<close>

function chat_loop ::
  "string option \<Rightarrow> backend \<Rightarrow> string \<Rightarrow> string list \<Rightarrow> nat \<Rightarrow> js_error option \<Rightarrow> event list
     \<Rightarrow> string outcome \<times> event list" where
  "chat_loop apiKey backend msg models i lastError tr =
     (if i < length models then
        (case chat_try apiKey backend (models ! i) msg tr of
           (Inr t, tr') \<Rightarrow> (Returns t, tr')
         | (Inl error, tr') \<Rightarrow>
             if \<not> isRateLimit error \<or> i = length models - 1 then
               (Throws (handleGeminiError error), tr')
             else chat_loop apiKey backend msg models (i + 1) (Some error) (delay 1000 tr'))
      else
        (case lastError of
           None \<Rightarrow> (ThrowsTypeError, tr)
         | Some e \<Rightarrow> (Throws (handleGeminiError e), tr)))"
  by pat_completeness auto
termination
  by (relation "measure (\<lambda>(apiKey, backend, msg, models, i, lastError, tr). length models - i)")
    auto

definition chatWithGemini ::
  "string option \<Rightarrow> backend \<Rightarrow> string \<Rightarrow> string outcome \<times> event list" where
  "chatWithGemini apiKey backend msg = chat_loop apiKey backend msg chat_models 0 None []"

subsection \<open>Reading the result of an image call\<close>

text \<open>
  The \<^verbatim>\<open>for\<close> loop over the parts, in \<^verbatim>\<open>generateImage\<close> and in \<^verbatim>\<open>editImage\<close>
  alike: the state is the pair of the image variable (\<^verbatim>\<open>editedImageB64\<close> or
  \<^verbatim>\<open>generatedImageB64\<close>, \<^verbatim>\<open>null\<close> at first) and \<^verbatim>\<open>textResponse\<close>, which is
  also the object returned.
\<close>

record image_result =
  resultImageB64 :: "string option"
  textResponse :: string

fun scanParts :: "part list \<Rightarrow> image_result \<Rightarrow> image_result" where
  "scanParts [] acc = acc"
| "scanParts (p # ps) acc =
     (case inlineData p of
        Some d \<Rightarrow> scanParts ps (acc\<lparr>resultImageB64 := Some (data d)\<rparr>)
      | None \<Rightarrow>
          (case text_part p of
             None \<Rightarrow> scanParts ps acc
           | Some t \<Rightarrow>
               if t = [] then scanParts ps acc
               else scanParts ps (acc\<lparr>textResponse := textResponse acc @ t\<rparr>)))"

text \<open>
  From \<^verbatim>\<open>const candidates = response.candidates || []\<close> to the \<^verbatim>\<open>return\<close>: the
  result, or the error thrown inside the \<^verbatim>\<open>try\<close> block when there is no candidate.
\<close>

definition readResponse :: "response \<Rightarrow> js_error + image_result" where
  "readResponse resp =
     (case (case candidates resp of None \<Rightarrow> [] | Some cs \<Rightarrow> cs) of
        [] \<Rightarrow>
          Inl (GeminiError ''No image was generated. The request might have been blocked.''
                 ''NO_CANDIDATES'' None)
      | c # cs \<Rightarrow>
          Inr (scanParts (case parts (content c) of None \<Rightarrow> [] | Some ps \<Rightarrow> ps)
                 \<lparr>resultImageB64 = None, textResponse = []\<rparr>))"

subsection \<open>generateImage\<close>

text \<open>
  \<^verbatim>\<open>generateImageWithRetry\<close> calls itself with one retry less; \<open>retries\<close> is a
  JavaScript number, 5 by default. The client \<^verbatim>\<open>ai\<close> only serves to issue the call.
\<close>

definition generate_request :: "string \<Rightarrow> string \<Rightarrow> request" where
  "generate_request modelName prompt =
     GenerateContent modelName [\<lparr>inlineData = None, text_part = Some prompt\<rparr>]"

function generateImageWithRetry ::
  "backend \<Rightarrow> string \<Rightarrow> string \<Rightarrow> int \<Rightarrow> event list \<Rightarrow> (js_error + response) \<times> event list" where
  "generateImageWithRetry backend modelName prompt retries tr =
     (case issue backend (generate_request modelName prompt) tr of
        (Responds resp, tr') \<Rightarrow> (Inr resp, tr')
      | (Fails error, tr') \<Rightarrow>
          if isRateLimit_generate error \<and> retries > 0 then
            generateImageWithRetry backend modelName prompt (retries - 1)
              (delay ((6 - retries) * 2000) tr')
          else (Inl error, tr'))"
  by pat_completeness auto
termination
  by (relation "measure (\<lambda>(backend, modelName, prompt, retries, tr). nat retries)") auto

definition generateImage_try ::
  "string option \<Rightarrow> backend \<Rightarrow> string \<Rightarrow> (js_error + image_result) \<times> event list" where
  "generateImage_try apiKey backend prompt =
     (case getGeminiModel apiKey of
        Inl e \<Rightarrow> (Inl e, [])
      | Inr ai \<Rightarrow>
          (case generateImageWithRetry backend ''gemini-2.5-flash-image'' prompt 5 [] of
             (Inl e, tr) \<Rightarrow> (Inl e, tr)
           | (Inr resp, tr) \<Rightarrow> (readResponse resp, tr)))"

definition generateImage ::
  "string option \<Rightarrow> backend \<Rightarrow> string \<Rightarrow> image_result outcome \<times> event list" where
  "generateImage apiKey backend prompt =
     (case generateImage_try apiKey backend prompt of
        (Inr res, tr) \<Rightarrow> (Returns res, tr)
      | (Inl error, tr) \<Rightarrow> (Throws (handleGeminiError error), tr))"

subsection \<open>editImage\<close>

definition maxAttempts :: nat where
  "maxAttempts = 2"

definition edit_request :: "string \<Rightarrow> string \<Rightarrow> string \<Rightarrow> request" where
  "edit_request imageB64 prompt mime =
     GenerateContent ''gemini-2.5-flash-image''
       [\<lparr>inlineData = Some \<lparr>data = imageB64, mimeType = mime\<rparr>, text_part = None\<rparr>,
        \<lparr>inlineData = None, text_part = Some prompt\<rparr>]"

definition edit_reply :: "reply \<Rightarrow> js_error + image_result" where
  "edit_reply r = (case r of Fails e \<Rightarrow> Inl e | Responds resp \<Rightarrow> readResponse resp)"

definition edit_try ::
  "string option \<Rightarrow> backend \<Rightarrow> string \<Rightarrow> string \<Rightarrow> string \<Rightarrow> event list
     \<Rightarrow> (js_error + image_result) \<times> event list" where
  "edit_try apiKey backend imageB64 prompt mime tr =
     (case getGeminiModel apiKey of
        Inl e \<Rightarrow> (Inl e, tr)
      | Inr ai \<Rightarrow>
          (case issue backend (edit_request imageB64 prompt mime) tr of
             (r, tr') \<Rightarrow> (edit_reply r, tr')))"

text \<open>
  The \<^verbatim>\<open>while (attempts < maxAttempts)\<close> loop. When the condition fails the function
  reaches its end and returns \<^verbatim>\<open>undefined\<close>.
\<close>

function edit_loop ::
  "string option \<Rightarrow> backend \<Rightarrow> string \<Rightarrow> string \<Rightarrow> string \<Rightarrow> nat \<Rightarrow> event list
     \<Rightarrow> image_result outcome \<times> event list" where
  "edit_loop apiKey backend imageB64 prompt mime attempts tr =
     (if attempts < maxAttempts then
        (case edit_try apiKey backend imageB64 prompt mime tr of
           (Inr res, tr') \<Rightarrow> (Returns res, tr')
         | (Inl error, tr') \<Rightarrow>
             if isRateLimit error \<and> attempts + 1 < maxAttempts then
               edit_loop apiKey backend imageB64 prompt mime (attempts + 1) (delay 2000 tr')
             else (Throws (handleGeminiError error), tr'))
      else (ReturnsUndefined, tr))"
  by pat_completeness auto
termination
  by (relation
        "measure (\<lambda>(apiKey, backend, imageB64, prompt, mime, attempts, tr). maxAttempts - attempts)")
    auto

definition editImage ::
  "string option \<Rightarrow> backend \<Rightarrow> string \<Rightarrow> string \<Rightarrow> string \<Rightarrow> image_result outcome \<times> event list" where
  "editImage apiKey backend imageB64 prompt mime =
     edit_loop apiKey backend imageB64 prompt mime 0 []"

subsection \<open>analyzeImage\<close>

definition analyze_models :: "string list" where
  "analyze_models = [''gemini-3-flash-preview'', ''gemini-2.5-flash-image'']"

text \<open>\<^verbatim>\<open>prompt || "Analyze this image in detail."\<close>\<close>

definition analyze_request :: "string \<Rightarrow> string \<Rightarrow> string \<Rightarrow> string \<Rightarrow> request" where
  "analyze_request model imageB64 prompt mime =
     GenerateContent model
       [\<lparr>inlineData = Some \<lparr>data = imageB64, mimeType = mime\<rparr>, text_part = None\<rparr>,
        \<lparr>inlineData = None,
         text_part = Some (if prompt = [] then ''Analyze this image in detail.'' else prompt)\<rparr>]"

definition analyze_reply :: "reply \<Rightarrow> js_error + string" where
  "analyze_reply r =
     (case r of
        Fails e \<Rightarrow> Inl e
      | Responds resp \<Rightarrow>
          (case text_resp resp of
             None \<Rightarrow> Inl (GeminiError ''The model returned an empty analysis.'' ''EMPTY_RESPONSE'' None)
           | Some t \<Rightarrow>
               if t = [] then
                 Inl (GeminiError ''The model returned an empty analysis.'' ''EMPTY_RESPONSE'' None)
               else Inr t))"

definition analyze_try ::
  "string option \<Rightarrow> backend \<Rightarrow> string \<Rightarrow> string \<Rightarrow> string \<Rightarrow> string \<Rightarrow> event list
     \<Rightarrow> (js_error + string) \<times> event list" where
  "analyze_try apiKey backend model imageB64 prompt mime tr =
     (case getGeminiModel apiKey of
        Inl e \<Rightarrow> (Inl e, tr)
      | Inr ai \<Rightarrow>
          (case issue backend (analyze_request model imageB64 prompt mime) tr of
             (r, tr') \<Rightarrow> (analyze_reply r, tr')))"

function analyze_loop ::
  "string option \<Rightarrow> backend \<Rightarrow> string \<Rightarrow> string \<Rightarrow> string \<Rightarrow> string list \<Rightarrow> nat
     \<Rightarrow> js_error option \<Rightarrow> event list \<Rightarrow> string outcome \<times> event list" where
  "analyze_loop apiKey backend imageB64 prompt mime models i lastError tr =
     (if i < length models then
        (case analyze_try apiKey backend (models ! i) imageB64 prompt mime tr of
           (Inr t, tr') \<Rightarrow> (Returns t, tr')
         | (Inl error, tr') \<Rightarrow>
             if \<not> isRateLimit error \<or> i = length models - 1 then
               (Throws (handleGeminiError error), tr')
             else
               analyze_loop apiKey backend imageB64 prompt mime models (i + 1) (Some error)
                 (delay 1000 tr'))
      else
        (case lastError of
           None \<Rightarrow> (ThrowsTypeError, tr)
         | Some e \<Rightarrow> (Throws (handleGeminiError e), tr)))"
  by pat_completeness auto
termination
  by (relation
        "measure (\<lambda>(apiKey, backend, imageB64, prompt, mime, models, i, lastError, tr).
           length models - i)")
    auto

definition analyzeImage ::
  "string option \<Rightarrow> backend \<Rightarrow> string \<Rightarrow> string \<Rightarrow> string \<Rightarrow> string outcome \<times> event list" where
  "analyzeImage apiKey backend imageB64 prompt mime =
     analyze_loop apiKey backend imageB64 prompt mime analyze_models 0 None []"

declare chat_loop.simps [simp del]
declare analyze_loop.simps [simp del]
declare edit_loop.simps [simp del]
declare generateImageWithRetry.simps [simp del]

section \<open>What the claims speak of\<close>

text \<open>
  The text and the image a result is said to hold, in the words of the claim: the texts
  of the parts without an inline payload, concatenated in order, and the data of the
  last part with an inline payload.
\<close>

definition spec_text :: "part list \<Rightarrow> string" where
  "spec_text ps =
     concat (map (\<lambda>p. case text_part p of None \<Rightarrow> [] | Some t \<Rightarrow> t)
               (filter (\<lambda>p. inlineData p = None) ps))"

definition spec_image :: "part list \<Rightarrow> string option" where
  "spec_image ps =
     (case rev (List.map_filter inlineData ps) of [] \<Rightarrow> None | d # ds \<Rightarrow> Some (data d))"

text \<open>
  The outcome of the attempt with index \<open>j\<close> of a chat: what the \<^verbatim>\<open>try\<close> block makes
  of the backend's reply to call \<open>j\<close>, issued to candidate \<open>j\<close>.
\<close>

definition chat_attempt :: "backend \<Rightarrow> string \<Rightarrow> nat \<Rightarrow> js_error + string" where
  "chat_attempt backend msg j = chat_reply (backend j (chat_request (chat_models ! j) msg))"



text \<open>
  The trace of a retry on one request: \<open>retry_prefix req n\<close> is \<open>n\<close> failed calls, the
  call with number \<open>j\<close> (from 1) followed by a delay of \<open>j * 2000\<close> ms, and
  \<open>retry_trace req n\<close> adds the call that ends the operation.
\<close>

fun retry_prefix :: "request \<Rightarrow> nat \<Rightarrow> event list" where
  "retry_prefix req 0 = []"
| "retry_prefix req (Suc n) = retry_prefix req n @ [Call req, Delay ((int n + 1) * 2000)]"

definition retry_trace :: "request \<Rightarrow> nat \<Rightarrow> event list" where
  "retry_trace req n = retry_prefix req n @ [Call req]"

text \<open>
  The kinds of the error taxonomy, and what it is for an operation to have ended with a
  terminal outcome: a returned value, or a thrown \<^verbatim>\<open>GeminiError\<close> whose code is one of
  the kinds. Falling off the end of the function and the \<^verbatim>\<open>TypeError\<close> of a
  \<^verbatim>\<open>null\<close> error are not terminal outcomes.
\<close>

definition taxonomy :: "string list" where
  "taxonomy =
     [''AUTH_ERROR'', ''SAFETY_ERROR'', ''RATE_LIMIT'', ''NETWORK_ERROR'', ''EMPTY_RESPONSE'',
      ''NO_CANDIDATES'', ''UNKNOWN_ERROR'']"

definition classified :: "js_error \<Rightarrow> bool" where
  "classified e = (name e = ''GeminiError'' \<and> code e \<in> set (map Str taxonomy))"

fun terminal :: "'a outcome \<Rightarrow> bool" where
  "terminal (Returns v) = True"
| "terminal (Throws e) = classified e"
| "terminal ReturnsUndefined = False"
| "terminal ThrowsTypeError = False"

text \<open>What every operation throws when the credential is absent.\<close>

definition missing_credential_error :: js_error where
  "missing_credential_error =
     GeminiError ''GEMINI_API_KEY is not set'' ''UNKNOWN_ERROR''
       (Some (Error ''GEMINI_API_KEY is not set''))"

section \<open>Inputs used to exercise the theorems\<close>

definition rate_limit_failure :: js_error where
  "rate_limit_failure = JsError ''ApiError'' (Some ''429 Too Many Requests'') Undefined Undefined None"

definition hello_response :: response where
  "hello_response = \<lparr>text_resp = Some ''hello'', candidates = None\<rparr>"

definition third_model_backend :: backend where
  "third_model_backend n req = (if n < 2 then Fails rate_limit_failure else Responds hello_response)"

definition empty_text_backend :: backend where
  "empty_text_backend n req = Responds \<lparr>text_resp = None, candidates = None\<rparr>"

definition fox_parts :: "part list" where
  "fox_parts =
     [\<lparr>inlineData = None, text_part = Some ''Here ''\<rparr>,
      \<lparr>inlineData = Some \<lparr>data = ''AAAA'', mimeType = ''image/png''\<rparr>, text_part = None\<rparr>,
      \<lparr>inlineData = Some \<lparr>data = ''BBBB'', mimeType = ''image/png''\<rparr>,
       text_part = Some ''hidden''\<rparr>,
      \<lparr>inlineData = None, text_part = None\<rparr>,
      \<lparr>inlineData = None, text_part = Some ''you go''\<rparr>]"

definition fox_response :: response where
  "fox_response =
     \<lparr>text_resp = None,
      candidates = Some [\<lparr>content = \<lparr>parts = Some fox_parts\<rparr>\<rparr>,
                         \<lparr>content = \<lparr>parts = Some [\<lparr>inlineData = None, text_part = Some ''other''\<rparr>]\<rparr>\<rparr>]\<rparr>"

definition fox_backend :: backend where
  "fox_backend n req = Responds fox_response"

definition retry_once_backend :: backend where
  "retry_once_backend n req = (if n = 0 then Fails rate_limit_failure else Responds fox_response)"

definition fifth_attempt_backend :: backend where
  "fifth_attempt_backend n req = (if n < 4 then Fails rate_limit_failure else Responds fox_response)"

definition always_rate_limited :: backend where
  "always_rate_limited n req = Fails rate_limit_failure"

definition status_only_failure :: js_error where
  "status_only_failure = JsError ''ApiError'' (Some ''Too Many Requests'') (Num 429) Undefined None"

definition status_only_backend :: backend where
  "status_only_backend n req = (if n = 0 then Fails status_only_failure else Responds fox_response)"

definition failing_backend :: "js_error \<Rightarrow> backend" where
  "failing_backend e n req = Fails e"

definition no_candidates_backend :: backend where
  "no_candidates_backend n req = Responds \<lparr>text_resp = None, candidates = Some []\<rparr>"

definition unmarked_failure :: js_error where
  "unmarked_failure = JsError ''ApiError'' (Some ''boom'') (Num 500) Undefined None"

definition empty_message_failure :: js_error where
  "empty_message_failure = JsError ''Error'' (Some []) Undefined Undefined None"

section \<open>Properties\<close>

subsection \<open>Substring search\<close>

lemma startsWith_prefix: "startsWith s n = prefix n s"
  by (induction s n rule: startsWith.induct) auto

lemma includes_str_sublist: "includes_str s n = sublist n s"
proof (induction s)
  case Nil
  show ?case by simp
next
  case (Cons x xs)
  show ?case
  proof (cases n)
    case Nil
    then show ?thesis by simp
  next
    case (Cons c cs)
    with Cons.IH show ?thesis
      by (simp add: startsWith_prefix sublist_Cons_right)
  qed
qed

subsection \<open>Error classification\<close>

lemma handled_message_present: "message e = Some m \<Longrightarrow> m \<noteq> [] \<Longrightarrow> handled_message e = m"
  by (simp add: handled_message_def)

lemma handled_message_absent:
  "message e = None \<or> message e = Some [] \<Longrightarrow>
     handled_message e = ''An unexpected error occurred''"
  by (auto simp: handled_message_def)

lemma name_handleGeminiError: "name (handleGeminiError e) = ''GeminiError''"
  by (simp add: handleGeminiError_def GeminiError_def Let_def)

lemma handled_status_429:
  "(handled_status e = Num 429) =
     (status e = Num 429 \<or> (\<not> truthy (status e) \<and> code e = Num 429))"
  by (cases "status e") (auto simp: handled_status_def js_or_def)

text \<open>
  Claim C2 as stated fails at the empty message: the classifier replaces a falsy message
  by a default text before it looks for markers, so the \<^verbatim>\<open>UNKNOWN_ERROR\<close> it throws
  for a failure whose message is the empty string does not carry that message.
\<close>

theorem empty_message_counterexample:
  "message empty_message_failure = Some []
   \<and> code (handleGeminiError empty_message_failure) = Str ''UNKNOWN_ERROR''
   \<and> message (handleGeminiError empty_message_failure) = Some ''An unexpected error occurred''
   \<and> message (handleGeminiError empty_message_failure) \<noteq> message empty_message_failure"
  by (simp add: empty_message_failure_def handleGeminiError_def handled_message_def
      handled_status_def js_or_def GeminiError_def Let_def)

text \<open>
  Claim C2, amended. For every raw failure that carries a message string \<open>m\<close>, empty or
  not, the classifier throws an error of exactly one kind, decided in this order: an
  invalid-API-key marker in \<open>m\<close> gives \<^verbatim>\<open>AUTH_ERROR\<close>; else a safety or blocked
  marker gives \<^verbatim>\<open>SAFETY_ERROR\<close>; else a status equal to 429 or a mention of quota
  gives \<^verbatim>\<open>RATE_LIMIT\<close>; else a network or fetch marker gives \<^verbatim>\<open>NETWORK_ERROR\<close>;
  else \<^verbatim>\<open>UNKNOWN_ERROR\<close>. The status is the field \<^verbatim>\<open>status\<close> of the failure, and
  its field \<^verbatim>\<open>code\<close> when \<^verbatim>\<open>status\<close> is absent or falsy. The \<^verbatim>\<open>UNKNOWN_ERROR\<close>
  carries the original message \<open>m\<close>, or the text \<^verbatim>\<open>An unexpected error occurred\<close>
  when \<open>m\<close> is empty, and keeps the failure as its details.
\<close>

theorem handleGeminiError_classification:
  assumes "message e = Some m"
  shows "code (handleGeminiError e) =
           (if includes_str m ''API_KEY_INVALID'' \<or> includes_str m ''API key not valid''
            then Str ''AUTH_ERROR''
            else if includes_str m ''SAFETY'' \<or> includes_str m ''blocked''
            then Str ''SAFETY_ERROR''
            else if status e = Num 429 \<or> (\<not> truthy (status e) \<and> code e = Num 429)
                    \<or> includes_str m ''quota''
            then Str ''RATE_LIMIT''
            else if includes_str m ''network'' \<or> includes_str m ''fetch''
            then Str ''NETWORK_ERROR''
            else Str ''UNKNOWN_ERROR'')
         \<and> (code (handleGeminiError e) = Str ''UNKNOWN_ERROR'' \<longrightarrow>
              message (handleGeminiError e) =
                Some (if m = [] then ''An unexpected error occurred'' else m)
              \<and> details (handleGeminiError e) = Some e)"
proof (cases "m = []")
  case True
  with assms have msg: "handled_message e = ''An unexpected error occurred''"
    by (simp add: handled_message_def)
  show ?thesis
    unfolding handleGeminiError_def Let_def msg handled_status_429
    by (simp add: True GeminiError_def)
next
  case False
  with assms have msg: "handled_message e = m"
    by (rule handled_message_present)
  show ?thesis
    unfolding handleGeminiError_def Let_def msg handled_status_429
    by (simp add: False GeminiError_def)
qed

theorem handleGeminiError_classification_witness:
  "message status_only_failure = Some ''Too Many Requests''
   \<and> status status_only_failure = Num 429
   \<and> code (handleGeminiError status_only_failure) = Str ''RATE_LIMIT''
   \<and> message unmarked_failure = Some ''boom''
   \<and> status unmarked_failure = Num 500
   \<and> code (handleGeminiError unmarked_failure) = Str ''UNKNOWN_ERROR''
   \<and> message (handleGeminiError unmarked_failure) = Some ''boom''"
  using handleGeminiError_classification [of status_only_failure "''Too Many Requests''"]
    handleGeminiError_classification [of unmarked_failure "''boom''"]
  by (simp add: status_only_failure_def unmarked_failure_def)

subsection \<open>Reading the parts of a response\<close>

lemma scanParts_acc:
  "scanParts ps acc =
     \<lparr>resultImageB64 =
        (case rev (List.map_filter inlineData ps) of
           [] \<Rightarrow> resultImageB64 acc
         | d # ds \<Rightarrow> Some (data d)),
      textResponse = textResponse acc @ spec_text ps\<rparr>"
proof (induction ps arbitrary: acc)
  case Nil
  show ?case by (simp add: spec_text_def)
next
  case (Cons p ps)
  show ?case
  proof (cases "inlineData p")
    case (Some d)
    then show ?thesis
      by (simp add: Cons.IH spec_text_def split: list.splits)
  next
    case None
    then show ?thesis
      by (simp add: Cons.IH spec_text_def
            split: option.splits list.splits)
  qed
qed

lemma scanParts_spec:
  "scanParts ps \<lparr>resultImageB64 = None, textResponse = []\<rparr> =
     \<lparr>resultImageB64 = spec_image ps, textResponse = spec_text ps\<rparr>"
  by (simp add: scanParts_acc spec_image_def split: list.splits)

lemma readResponse_first_candidate:
  "candidates resp = Some (c # cs) \<Longrightarrow>
     readResponse resp =
       Inr \<lparr>resultImageB64 = spec_image (case parts (content c) of None \<Rightarrow> [] | Some ps \<Rightarrow> ps),
            textResponse = spec_text (case parts (content c) of None \<Rightarrow> [] | Some ps \<Rightarrow> ps)\<rparr>"
  by (simp add: readResponse_def scanParts_spec)

lemma spec_image_no_inline: "list_all (\<lambda>p. inlineData p = None) ps \<Longrightarrow> spec_image ps = None"
  by (induction ps) (simp_all add: spec_image_def)

subsection \<open>One attempt, with the credential present\<close>

lemma getGeminiModel_present: "k \<noteq> [] \<Longrightarrow> getGeminiModel (Some k) = Inr k"
  by (simp add: getGeminiModel_def)

lemma edit_try_present:
  "k \<noteq> [] \<Longrightarrow>
     edit_try (Some k) backend img prompt mime tr =
       (edit_reply (backend (ncalls tr) (edit_request img prompt mime)),
        tr @ [Call (edit_request img prompt mime)])"
  by (simp add: edit_try_def getGeminiModel_present issue_def)

lemma ncalls_simps [simp]:
  "ncalls [] = 0"
  "ncalls (tr @ tr') = ncalls tr + ncalls tr'"
  "ncalls (Call r # tr) = Suc (ncalls tr)"
  "ncalls (Delay ms # tr) = ncalls tr"
  by (simp_all add: ncalls_def)

lemma generateImageWithRetry_responds:
  "backend (ncalls tr) (generate_request modelName prompt) = Responds resp \<Longrightarrow>
     generateImageWithRetry backend modelName prompt retries tr =
       (Inr resp, tr @ [Call (generate_request modelName prompt)])"
  by (subst generateImageWithRetry.simps) (simp add: issue_def)

subsection \<open>editImage\<close>

lemma edit_loop_first:
  assumes "k \<noteq> []"
  shows "edit_loop (Some k) backend img prompt mime 0 [] =
           (case edit_reply (backend 0 (edit_request img prompt mime)) of
              Inr res \<Rightarrow> (Returns res, [Call (edit_request img prompt mime)])
            | Inl error \<Rightarrow>
                if isRateLimit error then
                  edit_loop (Some k) backend img prompt mime (Suc 0)
                    [Call (edit_request img prompt mime), Delay 2000]
                else
                  (Throws (handleGeminiError error), [Call (edit_request img prompt mime)]))"
  by (subst edit_loop.simps)
    (simp add: edit_try_present [OF assms] maxAttempts_def delay_def split: sum.splits)

lemma edit_loop_second:
  assumes "k \<noteq> []"
  shows "edit_loop (Some k) backend img prompt mime (Suc 0)
           [Call (edit_request img prompt mime), Delay 2000] =
           (case edit_reply (backend 1 (edit_request img prompt mime)) of
              Inr res \<Rightarrow>
                (Returns res,
                 [Call (edit_request img prompt mime), Delay 2000,
                  Call (edit_request img prompt mime)])
            | Inl error \<Rightarrow>
                (Throws (handleGeminiError error),
                 [Call (edit_request img prompt mime), Delay 2000,
                  Call (edit_request img prompt mime)]))"
  by (subst edit_loop.simps)
    (simp add: edit_try_present [OF assms] maxAttempts_def split: sum.splits)

text \<open>
  Claim C4. With the credential present, \<^verbatim>\<open>editImage\<close> calls one fixed model at most
  twice. A first attempt that succeeds returns its result after one call. A first failure
  that the retry predicate does not accept is classified and thrown after one call. A
  first failure that the predicate accepts is followed by exactly one delay of 2000 ms
  and a second call of the same request; the second attempt's result is returned, or its
  failure is classified and thrown, whatever that failure is. An attempt's result is the
  text and image read from the response (\<open>edit_reply\<close>).
\<close>

theorem editImage_two_attempts:
  assumes "k \<noteq> []"
    and "req = edit_request img prompt mime"
    and "first = edit_reply (backend 0 req)"
    and "second = edit_reply (backend 1 req)"
  shows "(first = Inr res \<longrightarrow>
            editImage (Some k) backend img prompt mime = (Returns res, [Call req]))
       \<and> (first = Inl e \<and> \<not> isRateLimit e \<longrightarrow>
            editImage (Some k) backend img prompt mime =
              (Throws (handleGeminiError e), [Call req]))
       \<and> (first = Inl e \<and> isRateLimit e \<and> second = Inr res \<longrightarrow>
            editImage (Some k) backend img prompt mime =
              (Returns res, [Call req, Delay 2000, Call req]))
       \<and> (first = Inl e \<and> isRateLimit e \<and> second = Inl e' \<longrightarrow>
            editImage (Some k) backend img prompt mime =
              (Throws (handleGeminiError e'), [Call req, Delay 2000, Call req]))"
  using assms(2-4)
  by (simp add: editImage_def edit_loop_first [OF assms(1)] edit_loop_second [OF assms(1)])

theorem editImage_two_attempts_witness:
  "''key'' \<noteq> []
   \<and> edit_reply (retry_once_backend 0 (edit_request ''img'' ''make it blue'' ''image/png'')) =
       Inl rate_limit_failure
   \<and> isRateLimit rate_limit_failure
   \<and> editImage (Some ''key'') retry_once_backend ''img'' ''make it blue'' ''image/png'' =
       (Returns \<lparr>resultImageB64 = Some ''BBBB'', textResponse = ''Here you go''\<rparr>,
        [Call (edit_request ''img'' ''make it blue'' ''image/png''), Delay 2000,
         Call (edit_request ''img'' ''make it blue'' ''image/png'')])"
  using editImage_two_attempts
    [of "''key''" "edit_request ''img'' ''make it blue'' ''image/png''" "''img''"
        "''make it blue''" "''image/png''"
        "edit_reply (retry_once_backend 0 (edit_request ''img'' ''make it blue'' ''image/png''))"
        retry_once_backend
        "edit_reply (retry_once_backend 1 (edit_request ''img'' ''make it blue'' ''image/png''))"
        "\<lparr>resultImageB64 = Some ''BBBB'', textResponse = ''Here you go''\<rparr>"
        rate_limit_failure rate_limit_failure]
  by (simp add: retry_once_backend_def edit_reply_def rate_limit_failure_def isRateLimit_def
      errMsg_def readResponse_def fox_response_def fox_parts_def)

text \<open>
  Claim C5, at a response without candidates. The \<^verbatim>\<open>NO_CANDIDATES\<close> error thrown inside
  the \<^verbatim>\<open>try\<close> block is caught by the \<^verbatim>\<open>catch\<close> block of the same function and
  classified again: its message mentions \<^verbatim>\<open>blocked\<close>, so the caller receives a
  \<^verbatim>\<open>SAFETY_ERROR\<close>. It is raised after one call, with no retry and no delay.
\<close>

theorem editImage_no_candidates_surfaces_safety_error:
  "editImage (Some ''key'') no_candidates_backend ''img'' ''make it blue'' ''image/png'' =
     (Throws (GeminiError
                ''The request was blocked by safety filters. Please try a different prompt.''
                ''SAFETY_ERROR'' None),
      [Call (edit_request ''img'' ''make it blue'' ''image/png'')])"
proof -
  have key: "''key'' \<noteq> []" by simp
  have first: "edit_reply (no_candidates_backend 0 (edit_request ''img'' ''make it blue'' ''image/png''))
      = Inl (GeminiError ''No image was generated. The request might have been blocked.''
               ''NO_CANDIDATES'' None)"
    by (simp add: edit_reply_def no_candidates_backend_def readResponse_def)
  have loose: "\<not> isRateLimit (GeminiError ''No image was generated. The request might have been blocked.''
               ''NO_CANDIDATES'' None)"
    by (simp add: isRateLimit_def errMsg_def GeminiError_def)
  have kind: "handleGeminiError (GeminiError ''No image was generated. The request might have been blocked.''
               ''NO_CANDIDATES'' None)
      = GeminiError ''The request was blocked by safety filters. Please try a different prompt.''
          ''SAFETY_ERROR'' None"
    by (simp add: handleGeminiError_def handled_message_def GeminiError_def Let_def)
  show ?thesis
    by (simp only: editImage_def edit_loop_first [OF key] first sum.case loose if_False kind)
qed

subsection \<open>The image and text of a result\<close>

text \<open>
  Claim C10. When the response to an \<^verbatim>\<open>editImage\<close> or \<^verbatim>\<open>generateImage\<close> call has a
  first candidate, the operation returns after that one call, and the result is read
  from the parts \<open>ps\<close> of the first candidate only: its text is the concatenation, in
  order, of the texts of the parts without an inline payload, and its image is the data
  of the last part with an inline payload, \<^verbatim>\<open>null\<close> when no part has one.
\<close>

theorem image_result_of_first_candidate:
  assumes "k \<noteq> []"
    and "candidates resp = Some (c # cs)"
    and "ps = (case parts (content c) of None \<Rightarrow> [] | Some ps \<Rightarrow> ps)"
  shows "(backend 0 (edit_request img prompt mime) = Responds resp \<longrightarrow>
            editImage (Some k) backend img prompt mime =
              (Returns \<lparr>resultImageB64 = spec_image ps, textResponse = spec_text ps\<rparr>,
               [Call (edit_request img prompt mime)]))
       \<and> (backend 0 (generate_request ''gemini-2.5-flash-image'' prompt) = Responds resp \<longrightarrow>
            generateImage (Some k) backend prompt =
              (Returns \<lparr>resultImageB64 = spec_image ps, textResponse = spec_text ps\<rparr>,
               [Call (generate_request ''gemini-2.5-flash-image'' prompt)]))
       \<and> (list_all (\<lambda>p. inlineData p = None) ps \<longrightarrow> spec_image ps = None)"
proof -
  have rd: "readResponse resp =
      Inr \<lparr>resultImageB64 = spec_image ps, textResponse = spec_text ps\<rparr>"
    using readResponse_first_candidate [OF assms(2)] assms(3) by simp
  have edit: "backend 0 (edit_request img prompt mime) = Responds resp \<Longrightarrow>
      editImage (Some k) backend img prompt mime =
        (Returns \<lparr>resultImageB64 = spec_image ps, textResponse = spec_text ps\<rparr>,
         [Call (edit_request img prompt mime)])"
    by (simp add: editImage_def edit_loop_first [OF assms(1)] edit_reply_def rd)
  have gen: "backend 0 (generate_request ''gemini-2.5-flash-image'' prompt) = Responds resp \<Longrightarrow>
      generateImage (Some k) backend prompt =
        (Returns \<lparr>resultImageB64 = spec_image ps, textResponse = spec_text ps\<rparr>,
         [Call (generate_request ''gemini-2.5-flash-image'' prompt)])"
    by (simp add: generateImage_def generateImage_try_def getGeminiModel_present [OF assms(1)]
        generateImageWithRetry_responds rd)
  show ?thesis
    using edit gen spec_image_no_inline by blast
qed

theorem image_result_of_first_candidate_witness:
  "''key'' \<noteq> []
   \<and> editImage (Some ''key'') fox_backend ''img'' ''a red fox'' ''image/png'' =
       (Returns \<lparr>resultImageB64 = Some ''BBBB'', textResponse = ''Here you go''\<rparr>,
        [Call (edit_request ''img'' ''a red fox'' ''image/png'')])
   \<and> generateImage (Some ''key'') fox_backend ''a red fox'' =
       (Returns \<lparr>resultImageB64 = Some ''BBBB'', textResponse = ''Here you go''\<rparr>,
        [Call (generate_request ''gemini-2.5-flash-image'' ''a red fox'')])"
  using image_result_of_first_candidate
    [where k = "''key''" and resp = fox_response
       and c = "\<lparr>content = \<lparr>parts = Some fox_parts\<rparr>\<rparr>"
       and cs = "[\<lparr>content = \<lparr>parts = Some [\<lparr>inlineData = None, text_part = Some ''other''\<rparr>]\<rparr>\<rparr>]"
       and ps = fox_parts and backend = fox_backend and img = "''img''"
       and prompt = "''a red fox''" and mime = "''image/png''"]
  by (simp add: fox_response_def fox_backend_def fox_parts_def spec_image_def spec_text_def)

subsection \<open>chatWithGemini\<close>

lemma chat_try_present:
  "k \<noteq> [] \<Longrightarrow>
     chat_try (Some k) backend model msg tr =
       (chat_reply (backend (ncalls tr) (chat_request model msg)),
        tr @ [Call (chat_request model msg)])"
  by (simp add: chat_try_def getGeminiModel_present issue_def)

lemma chat_loop_step:
  assumes "k \<noteq> []" and "i < length models"
  shows "chat_loop (Some k) backend msg models i lastError tr =
           (case chat_reply (backend (ncalls tr) (chat_request (models ! i) msg)) of
              Inr t \<Rightarrow> (Returns t, tr @ [Call (chat_request (models ! i) msg)])
            | Inl error \<Rightarrow>
                if isRateLimit error \<and> Suc i < length models then
                  chat_loop (Some k) backend msg models (Suc i) (Some error)
                    (tr @ [Call (chat_request (models ! i) msg), Delay 1000])
                else
                  (Throws (handleGeminiError error),
                   tr @ [Call (chat_request (models ! i) msg)]))"
proof -
  have last: "(i = length models - Suc 0) = (\<not> Suc i < length models)"
    using assms(2) by arith
  show ?thesis
    by (subst chat_loop.simps)
      (simp add: chat_try_present [OF assms(1)] assms(2) last delay_def split: sum.splits)
qed

lemma chat_first:
  assumes "key \<noteq> []"
  shows "chatWithGemini (Some key) backend msg =
           (case chat_attempt backend msg 0 of
              Inr t \<Rightarrow> (Returns t, [Call (chat_request (chat_models ! 0) msg)])
            | Inl error \<Rightarrow>
                if isRateLimit error then
                  chat_loop (Some key) backend msg chat_models (Suc 0) (Some error)
                    [Call (chat_request (chat_models ! 0) msg), Delay 1000]
                else
                  (Throws (handleGeminiError error), [Call (chat_request (chat_models ! 0) msg)]))"
  unfolding chatWithGemini_def chat_attempt_def
  by (subst chat_loop_step [OF assms]) (simp_all add: chat_models_def split: sum.splits)

lemma chat_second:
  assumes "key \<noteq> []"
  shows "chat_loop (Some key) backend msg chat_models (Suc 0) lastError
           [Call (chat_request (chat_models ! 0) msg), Delay 1000] =
           (case chat_attempt backend msg 1 of
              Inr t \<Rightarrow>
                (Returns t,
                 [Call (chat_request (chat_models ! 0) msg), Delay 1000,
                  Call (chat_request (chat_models ! Suc 0) msg)])
            | Inl error \<Rightarrow>
                if isRateLimit error then
                  chat_loop (Some key) backend msg chat_models (Suc (Suc 0)) (Some error)
                    [Call (chat_request (chat_models ! 0) msg), Delay 1000,
                     Call (chat_request (chat_models ! Suc 0) msg), Delay 1000]
                else
                  (Throws (handleGeminiError error),
                   [Call (chat_request (chat_models ! 0) msg), Delay 1000,
                    Call (chat_request (chat_models ! Suc 0) msg)]))"
  unfolding chat_attempt_def
  by (subst chat_loop_step [OF assms]) (simp_all add: chat_models_def split: sum.splits)

lemma chat_third:
  assumes "key \<noteq> []"
  shows "chat_loop (Some key) backend msg chat_models (Suc (Suc 0)) lastError
           [Call (chat_request (chat_models ! 0) msg), Delay 1000,
            Call (chat_request (chat_models ! Suc 0) msg), Delay 1000] =
           (case chat_attempt backend msg 2 of
              Inr t \<Rightarrow>
                (Returns t,
                 [Call (chat_request (chat_models ! 0) msg), Delay 1000,
                  Call (chat_request (chat_models ! Suc 0) msg), Delay 1000,
                  Call (chat_request (chat_models ! 2) msg)])
            | Inl error \<Rightarrow>
                (Throws (handleGeminiError error),
                 [Call (chat_request (chat_models ! 0) msg), Delay 1000,
                  Call (chat_request (chat_models ! Suc 0) msg), Delay 1000,
                  Call (chat_request (chat_models ! 2) msg)]))"
  unfolding chat_attempt_def
  by (subst chat_loop_step [OF assms])
    (simp_all add: chat_models_def numeral_2_eq_2 split: sum.splits)







lemma chat_attempts_exhaustive:
  "\<exists>k<length chat_models.
      (\<forall>j<k. \<exists>e. chat_attempt backend msg j = Inl e \<and> isRateLimit e)
      \<and> ((\<exists>t. chat_attempt backend msg k = Inr t)
           \<or> (\<exists>e. chat_attempt backend msg k = Inl e
                 \<and> (\<not> isRateLimit e \<or> Suc k = length chat_models)))"
proof -
  let ?retried = "\<lambda>j. \<exists>e. chat_attempt backend msg j = Inl e \<and> isRateLimit e"
  have len: "length chat_models = Suc (Suc (Suc 0))"
    by (simp add: chat_models_def)
  have stop: "\<not> ?retried j \<Longrightarrow>
      (\<exists>t. chat_attempt backend msg j = Inr t)
      \<or> (\<exists>e. chat_attempt backend msg j = Inl e \<and> \<not> isRateLimit e)" for j
    by (cases "chat_attempt backend msg j") auto
  have final: "(\<exists>t. chat_attempt backend msg j = Inr t) \<or> (\<exists>e. chat_attempt backend msg j = Inl e)"
    for j
    by (cases "chat_attempt backend msg j") auto
  show ?thesis
  proof (cases "?retried 0")
    case False
    with stop [of 0] show ?thesis
      unfolding len by (intro exI [of _ 0]) auto
  next
    case r0: True
    show ?thesis
    proof (cases "?retried (Suc 0)")
      case False
      with stop [of "Suc 0"] r0 show ?thesis
        unfolding len by (intro exI [of _ "Suc 0"]) auto
    next
      case r1: True
      have "\<forall>j<Suc (Suc 0). ?retried j"
        using r0 r1 by (simp add: less_Suc_eq)
      with final [of "Suc (Suc 0)"] show ?thesis
        unfolding len by (intro exI [of _ "Suc (Suc 0)"]) auto
    qed
  qed
qed

text \<open>
  Claim C6, at a response without text. The \<^verbatim>\<open>EMPTY_RESPONSE\<close> error thrown inside the
  \<^verbatim>\<open>try\<close> block is caught by the \<^verbatim>\<open>catch\<close> block of the same iteration and
  classified again; none of the markers occurs in its message, so the caller receives an
  \<^verbatim>\<open>UNKNOWN_ERROR\<close> that keeps the \<^verbatim>\<open>EMPTY_RESPONSE\<close> error as its details. It is
  raised after the first call, with no fallback and no delay.
\<close>

theorem chatWithGemini_empty_response_surfaces_unknown_error:
  "chatWithGemini (Some ''key'') empty_text_backend ''hi'' =
     (Throws (GeminiError ''The model returned an empty response.'' ''UNKNOWN_ERROR''
                (Some (GeminiError ''The model returned an empty response.''
                         ''EMPTY_RESPONSE'' None))),
      [Call (chat_request ''gemini-3.1-pro-preview'' ''hi'')])"
proof -
  have key: "''key'' \<noteq> []" by simp
  have first: "chat_attempt empty_text_backend ''hi'' 0 =
      Inl (GeminiError ''The model returned an empty response.'' ''EMPTY_RESPONSE'' None)"
    by (simp add: chat_attempt_def empty_text_backend_def chat_reply_def)
  have loose: "\<not> isRateLimit (GeminiError ''The model returned an empty response.''
      ''EMPTY_RESPONSE'' None)"
    by (simp add: isRateLimit_def errMsg_def GeminiError_def)
  have kind: "handleGeminiError (GeminiError ''The model returned an empty response.''
        ''EMPTY_RESPONSE'' None) =
      GeminiError ''The model returned an empty response.'' ''UNKNOWN_ERROR''
        (Some (GeminiError ''The model returned an empty response.'' ''EMPTY_RESPONSE'' None))"
    by (simp add: handleGeminiError_def handled_message_def handled_status_def js_or_def
        GeminiError_def Let_def)
  have model: "chat_models ! 0 = ''gemini-3.1-pro-preview''"
    by (simp add: chat_models_def)
  show ?thesis
    by (simp only: chat_first [OF key] first sum.case loose if_False kind model)
qed

subsection \<open>The absent credential\<close>

lemma getGeminiModel_absent:
  "apiKey = None \<or> apiKey = Some [] \<Longrightarrow>
     getGeminiModel apiKey = Inl (Error ''GEMINI_API_KEY is not set'')"
  by (auto simp: getGeminiModel_def)

lemma not_set_not_rate_limit: "\<not> isRateLimit (Error ''GEMINI_API_KEY is not set'')"
  by (simp add: isRateLimit_def errMsg_def Error_def)

lemma handleGeminiError_not_set:
  "handleGeminiError (Error ''GEMINI_API_KEY is not set'') = missing_credential_error"
  by (simp add: handleGeminiError_def handled_message_def handled_status_def js_or_def
      Error_def GeminiError_def missing_credential_error_def Let_def)

lemma chatWithGemini_absent:
  assumes "apiKey = None \<or> apiKey = Some []"
  shows "chatWithGemini apiKey backend msg = (Throws missing_credential_error, [])"
  unfolding chatWithGemini_def
  by (subst chat_loop.simps)
    (simp add: chat_try_def getGeminiModel_absent [OF assms] not_set_not_rate_limit
      handleGeminiError_not_set chat_models_def)

lemma analyzeImage_absent:
  assumes "apiKey = None \<or> apiKey = Some []"
  shows "analyzeImage apiKey backend img prompt mime = (Throws missing_credential_error, [])"
  unfolding analyzeImage_def
  by (subst analyze_loop.simps)
    (simp add: analyze_try_def getGeminiModel_absent [OF assms] not_set_not_rate_limit
      handleGeminiError_not_set analyze_models_def)

lemma editImage_absent:
  assumes "apiKey = None \<or> apiKey = Some []"
  shows "editImage apiKey backend img prompt mime = (Throws missing_credential_error, [])"
  unfolding editImage_def
  by (subst edit_loop.simps)
    (simp add: edit_try_def getGeminiModel_absent [OF assms] not_set_not_rate_limit
      handleGeminiError_not_set maxAttempts_def)

lemma generateImage_absent:
  assumes "apiKey = None \<or> apiKey = Some []"
  shows "generateImage apiKey backend prompt = (Throws missing_credential_error, [])"
  by (simp add: generateImage_def generateImage_try_def getGeminiModel_absent [OF assms]
      handleGeminiError_not_set)

lemma classified_missing_credential_error: "classified missing_credential_error"
  by (simp add: classified_def missing_credential_error_def GeminiError_def taxonomy_def)

text \<open>
  Claim C8 as stated fails: with the variable unset, the error a chat raises is a
  \<^verbatim>\<open>GeminiError\<close> whose code \<^verbatim>\<open>UNKNOWN_ERROR\<close> belongs to the taxonomy.
\<close>

theorem missing_credential_counterexample:
  "fst (chatWithGemini None fox_backend ''hi'') = Throws missing_credential_error
   \<and> code missing_credential_error = Str ''UNKNOWN_ERROR''
   \<and> classified missing_credential_error"
  using classified_missing_credential_error
  by (simp add: chatWithGemini_absent missing_credential_error_def GeminiError_def)

text \<open>
  Claim C8, amended. When the credential is absent (unset or empty), each of the four
  operations fails at once, with an empty trace: no backend call and no delay. The error
  is the same for every backend and every input: the \<^verbatim>\<open>GeminiError\<close> of kind
  \<^verbatim>\<open>UNKNOWN_ERROR\<close> with the message \<^verbatim>\<open>GEMINI_API_KEY is not set\<close>, keeping the
  initialization error as its details.
\<close>

theorem missing_credential_fails_before_any_call:
  assumes "apiKey = None \<or> apiKey = Some []"
  shows "chatWithGemini apiKey backend msg = (Throws missing_credential_error, [])
       \<and> analyzeImage apiKey backend img prompt mime = (Throws missing_credential_error, [])
       \<and> editImage apiKey backend img prompt mime = (Throws missing_credential_error, [])
       \<and> generateImage apiKey backend prompt = (Throws missing_credential_error, [])"
  using assms
  by (simp add: chatWithGemini_absent analyzeImage_absent editImage_absent generateImage_absent)

theorem missing_credential_fails_before_any_call_witness:
  "chatWithGemini None fox_backend ''hi'' = (Throws missing_credential_error, [])
   \<and> analyzeImage None fox_backend ''img'' ''what is this'' ''image/png'' =
       (Throws missing_credential_error, [])
   \<and> editImage None fox_backend ''img'' ''what is this'' ''image/png'' =
       (Throws missing_credential_error, [])
   \<and> generateImage None fox_backend ''what is this'' = (Throws missing_credential_error, [])
   \<and> message missing_credential_error = Some ''GEMINI_API_KEY is not set''"
  using missing_credential_fails_before_any_call
    [where apiKey = None and backend = fox_backend and msg = "''hi''" and img = "''img''"
       and prompt = "''what is this''" and mime = "''image/png''"]
  by (simp add: missing_credential_error_def GeminiError_def)

subsection \<open>Every operation ends with a terminal outcome\<close>

lemma classified_handleGeminiError: "classified (handleGeminiError e)"
  by (simp add: classified_def handleGeminiError_def GeminiError_def taxonomy_def Let_def)

lemma chat_loop_terminal:
  "i < length models \<Longrightarrow> terminal (fst (chat_loop apiKey backend msg models i lastError tr))"
proof (induction apiKey backend msg models i lastError tr rule: chat_loop.induct)
  case (1 apiKey backend msg models i lastError tr)
  obtain r tr' where att: "chat_try apiKey backend (models ! i) msg tr = (r, tr')"
    by (cases "chat_try apiKey backend (models ! i) msg tr")
  show ?case
  proof (cases r)
    case (Inr t)
    with att "1.prems" show ?thesis
      by (subst chat_loop.simps) simp
  next
    case (Inl error)
    show ?thesis
    proof (cases "\<not> isRateLimit error \<or> i = length models - 1")
      case True
      with att Inl "1.prems" show ?thesis
        by (subst chat_loop.simps) (auto simp: classified_handleGeminiError)
    next
      case False
      with "1.prems" have next_i: "i + 1 < length models"
        by arith
      have "terminal (fst (chat_loop apiKey backend msg models (i + 1) (Some error)
          (delay 1000 tr')))"
        using "1.IH" [OF "1.prems" att [symmetric] Inl False next_i] .
      with att Inl False "1.prems" show ?thesis
        by (subst chat_loop.simps) simp
    qed
  qed
qed

lemma analyze_loop_terminal:
  "i < length models \<Longrightarrow>
     terminal (fst (analyze_loop apiKey backend img prompt mime models i lastError tr))"
proof (induction apiKey backend img prompt mime models i lastError tr rule: analyze_loop.induct)
  case (1 apiKey backend img prompt mime models i lastError tr)
  obtain r tr' where att: "analyze_try apiKey backend (models ! i) img prompt mime tr = (r, tr')"
    by (cases "analyze_try apiKey backend (models ! i) img prompt mime tr")
  show ?case
  proof (cases r)
    case (Inr t)
    with att "1.prems" show ?thesis
      by (subst analyze_loop.simps) simp
  next
    case (Inl error)
    show ?thesis
    proof (cases "\<not> isRateLimit error \<or> i = length models - 1")
      case True
      with att Inl "1.prems" show ?thesis
        by (subst analyze_loop.simps) (auto simp: classified_handleGeminiError)
    next
      case False
      with "1.prems" have next_i: "i + 1 < length models"
        by arith
      have "terminal (fst (analyze_loop apiKey backend img prompt mime models (i + 1)
          (Some error) (delay 1000 tr')))"
        using "1.IH" [OF "1.prems" att [symmetric] Inl False next_i] .
      with att Inl False "1.prems" show ?thesis
        by (subst analyze_loop.simps) simp
    qed
  qed
qed

lemma edit_loop_terminal:
  "attempts < maxAttempts \<Longrightarrow>
     terminal (fst (edit_loop apiKey backend img prompt mime attempts tr))"
proof (induction apiKey backend img prompt mime attempts tr rule: edit_loop.induct)
  case (1 apiKey backend img prompt mime attempts tr)
  obtain r tr' where att: "edit_try apiKey backend img prompt mime tr = (r, tr')"
    by (cases "edit_try apiKey backend img prompt mime tr")
  show ?case
  proof (cases r)
    case (Inr res)
    with att "1.prems" show ?thesis
      by (subst edit_loop.simps) simp
  next
    case (Inl error)
    show ?thesis
    proof (cases "isRateLimit error \<and> attempts + 1 < maxAttempts")
      case True
      then have next_a: "attempts + 1 < maxAttempts"
        by simp
      have "terminal (fst (edit_loop apiKey backend img prompt mime (attempts + 1)
          (delay 2000 tr')))"
        using "1.IH" [OF "1.prems" att [symmetric] Inl True next_a] .
      with att Inl True "1.prems" show ?thesis
        by (subst edit_loop.simps) simp
    next
      case False
      with att Inl "1.prems" show ?thesis
        by (subst edit_loop.simps) (auto simp: classified_handleGeminiError)
    qed
  qed
qed

lemma generateImage_terminal: "terminal (fst (generateImage apiKey backend prompt))"
  by (simp add: generateImage_def classified_handleGeminiError split: prod.splits sum.splits)

text \<open>
  Claim C9. For every credential, every backend and every input, each of the four
  operations ends with a terminal outcome: it returns a value, or it throws a
  \<^verbatim>\<open>GeminiError\<close> whose code is a kind of the taxonomy. The attempt loop of
  \<^verbatim>\<open>editImage\<close> never falls off its end (which would return \<^verbatim>\<open>undefined\<close>), and the
  candidate loops of \<^verbatim>\<open>chatWithGemini\<close> and \<^verbatim>\<open>analyzeImage\<close> never reach the call
  \<^verbatim>\<open>handleGeminiError(lastError)\<close> with \<^verbatim>\<open>lastError\<close> still \<^verbatim>\<open>null\<close>. The operations
  are total functions of the credential, the backend and the input, so the outcome is
  unique.
\<close>

theorem every_operation_ends_terminal:
  "terminal (fst (chatWithGemini apiKey backend msg))
   \<and> terminal (fst (analyzeImage apiKey backend img prompt mime))
   \<and> terminal (fst (editImage apiKey backend img prompt mime))
   \<and> terminal (fst (generateImage apiKey backend prompt))"
  by (simp add: chatWithGemini_def analyzeImage_def editImage_def chat_loop_terminal
      analyze_loop_terminal edit_loop_terminal generateImage_terminal chat_models_def
      analyze_models_def maxAttempts_def)

theorem every_operation_ends_terminal_witness:
  "terminal (fst (chatWithGemini (Some ''key'') third_model_backend ''hi''))
   \<and> terminal (fst (analyzeImage (Some ''key'') third_model_backend ''img'' [] ''image/png''))
   \<and> terminal (fst (editImage (Some ''key'') third_model_backend ''img'' [] ''image/png''))
   \<and> terminal (fst (generateImage (Some ''key'') third_model_backend []))
   \<and> fst (editImage (Some ''key'') third_model_backend ''img'' [] ''image/png'') \<noteq> ReturnsUndefined
   \<and> fst (chatWithGemini (Some ''key'') third_model_backend ''hi'') \<noteq> ThrowsTypeError"
proof -
  have all: "terminal (fst (chatWithGemini (Some ''key'') third_model_backend ''hi''))
     \<and> terminal (fst (analyzeImage (Some ''key'') third_model_backend ''img'' [] ''image/png''))
     \<and> terminal (fst (editImage (Some ''key'') third_model_backend ''img'' [] ''image/png''))
     \<and> terminal (fst (generateImage (Some ''key'') third_model_backend []))"
    by (rule every_operation_ends_terminal)
  have undef: "terminal x \<Longrightarrow> x \<noteq> ReturnsUndefined" for x :: "image_result outcome"
    by (cases x) simp_all
  have null: "terminal x \<Longrightarrow> x \<noteq> ThrowsTypeError" for x :: "string outcome"
    by (cases x) simp_all
  from all undef null show ?thesis
    by blast
qed

subsection \<open>generateImage\<close>

lemma isRateLimit_generate_iff: "isRateLimit_generate e = (status e = Num 429 \<or> isRateLimit e)"
  by (cases "message e") (auto simp: isRateLimit_generate_def isRateLimit_def errMsg_def)

lemma generateImageWithRetry_retries:
  "backend (ncalls tr) (generate_request modelName prompt) = Fails e \<Longrightarrow>
   isRateLimit_generate e \<Longrightarrow> 0 < retries \<Longrightarrow>
     generateImageWithRetry backend modelName prompt retries tr =
       generateImageWithRetry backend modelName prompt (retries - 1)
         (tr @ [Call (generate_request modelName prompt), Delay ((6 - retries) * 2000)])"
  by (subst generateImageWithRetry.simps) (simp add: issue_def delay_def)

lemma generateImageWithRetry_gives_up:
  "backend (ncalls tr) (generate_request modelName prompt) = Fails e \<Longrightarrow>
   \<not> isRateLimit_generate e \<or> retries \<le> 0 \<Longrightarrow>
     generateImageWithRetry backend modelName prompt retries tr =
       (Inl e, tr @ [Call (generate_request modelName prompt)])"
  by (subst generateImageWithRetry.simps) (auto simp: issue_def)

lemma ncalls_retry_prefix [simp]: "ncalls (retry_prefix req n) = n"
  by (induction n) simp_all

lemma generateImageWithRetry_prefix:
  assumes "n \<le> 5"
    and "\<forall>j<n. \<exists>e. backend j (generate_request modelName prompt) = Fails e
           \<and> isRateLimit_generate e"
  shows "generateImageWithRetry backend modelName prompt 5 [] =
           generateImageWithRetry backend modelName prompt (5 - int n)
             (retry_prefix (generate_request modelName prompt) n)"
  using assms
proof (induction n)
  case 0
  show ?case by simp
next
  case (Suc n)
  from Suc.prems obtain e where
    e: "backend n (generate_request modelName prompt) = Fails e" "isRateLimit_generate e"
    by auto
  have "generateImageWithRetry backend modelName prompt 5 [] =
      generateImageWithRetry backend modelName prompt (5 - int n)
        (retry_prefix (generate_request modelName prompt) n)"
    using Suc.IH Suc.prems by simp
  also have "\<dots> =
      generateImageWithRetry backend modelName prompt (5 - int n - 1)
        (retry_prefix (generate_request modelName prompt) n
           @ [Call (generate_request modelName prompt), Delay ((6 - (5 - int n)) * 2000)])"
    using e Suc.prems(1) by (intro generateImageWithRetry_retries) simp_all
  finally show ?case
    by (simp add: algebra_simps)
qed

lemma generateImageWithRetry_last:
  assumes "n \<le> 5"
    and "\<forall>j<n. \<exists>e. backend j (generate_request modelName prompt) = Fails e
           \<and> isRateLimit_generate e"
  shows "backend n (generate_request modelName prompt) = Responds resp \<Longrightarrow>
           generateImageWithRetry backend modelName prompt 5 [] =
             (Inr resp, retry_trace (generate_request modelName prompt) n)"
    and "backend n (generate_request modelName prompt) = Fails e \<Longrightarrow>
         \<not> isRateLimit_generate e \<or> n = 5 \<Longrightarrow>
           generateImageWithRetry backend modelName prompt 5 [] =
             (Inl e, retry_trace (generate_request modelName prompt) n)"
proof -
  note start =
    generateImageWithRetry_prefix
      [where backend = backend and modelName = modelName and prompt = prompt, OF assms]
  show "generateImageWithRetry backend modelName prompt 5 [] =
      (Inr resp, retry_trace (generate_request modelName prompt) n)"
    if "backend n (generate_request modelName prompt) = Responds resp"
    unfolding start retry_trace_def
    using that by (intro generateImageWithRetry_responds) simp
  show "generateImageWithRetry backend modelName prompt 5 [] =
      (Inl e, retry_trace (generate_request modelName prompt) n)"
    if "backend n (generate_request modelName prompt) = Fails e"
      and "\<not> isRateLimit_generate e \<or> n = 5"
    unfolding start retry_trace_def
    using that by (intro generateImageWithRetry_gives_up) auto
qed

lemma generateImage_present:
  "key \<noteq> [] \<Longrightarrow>
     generateImage (Some key) backend prompt =
       (case generateImageWithRetry backend ''gemini-2.5-flash-image'' prompt 5 [] of
          (Inl e, tr) \<Rightarrow> (Throws (handleGeminiError e), tr)
        | (Inr resp, tr) \<Rightarrow>
            (case readResponse resp of
               Inr res \<Rightarrow> (Returns res, tr)
             | Inl err \<Rightarrow> (Throws (handleGeminiError err), tr)))"
  by (simp add: generateImage_def generateImage_try_def getGeminiModel_present
      split: prod.splits sum.splits)

lemma generate_attempts_exhaustive:
  fixes backend :: backend
  shows "\<exists>n\<le>5. (\<forall>j<n. \<exists>e. backend j req = Fails e \<and> isRateLimit_generate e)
      \<and> ((\<exists>resp. backend n req = Responds resp)
           \<or> (\<exists>e. backend n req = Fails e \<and> (\<not> isRateLimit_generate e \<or> n = 5)))"
proof -
  let ?retried = "\<lambda>j. \<exists>e. backend j req = Fails e \<and> isRateLimit_generate e"
  have stop: "\<not> ?retried j \<Longrightarrow>
      (\<exists>resp. backend j req = Responds resp)
      \<or> (\<exists>e. backend j req = Fails e \<and> \<not> isRateLimit_generate e)" for j
    by (cases "backend j req") auto
  show ?thesis
  proof (cases "\<forall>j\<le>5. ?retried j")
    case True
    then have "\<forall>j<5. ?retried j" and "?retried 5"
      by auto
    then show ?thesis
      by (intro exI [of _ 5]) auto
  next
    case False
    then obtain j where j: "j \<le> 5" "\<not> ?retried j"
      by auto
    define n where "n = (LEAST j. \<not> ?retried j)"
    have n_stops: "\<not> ?retried n"
      unfolding n_def using j(2) by (rule LeastI)
    have "n \<le> j"
      unfolding n_def using j(2) by (rule Least_le)
    with j(1) have n_le: "n \<le> 5"
      by simp
    have before: "\<forall>i<n. ?retried i"
      unfolding n_def using not_less_Least by blast
    from stop [OF n_stops] n_le before show ?thesis
      by (intro exI [of _ n]) auto
  qed
qed

lemma generateImage_trace:
  assumes "key \<noteq> []"
  shows "\<exists>n\<le>5. snd (generateImage (Some key) backend prompt) =
           retry_trace (generate_request ''gemini-2.5-flash-image'' prompt) n"
proof -
  let ?req = "generate_request ''gemini-2.5-flash-image'' prompt"
  from generate_attempts_exhaustive [of backend ?req] obtain n where
    n: "n \<le> 5" "\<forall>j<n. \<exists>e. backend j ?req = Fails e \<and> isRateLimit_generate e"
    and last: "(\<exists>resp. backend n ?req = Responds resp)
      \<or> (\<exists>e. backend n ?req = Fails e \<and> (\<not> isRateLimit_generate e \<or> n = 5))"
    by blast
  from last have "snd (generateImage (Some key) backend prompt) = retry_trace ?req n"
  proof
    assume "\<exists>resp. backend n ?req = Responds resp"
    then obtain resp where "backend n ?req = Responds resp" ..
    then show ?thesis
      by (simp add: generateImage_present [OF assms]
          generateImageWithRetry_last(1)
            [where backend = backend and modelName = "''gemini-2.5-flash-image''"
               and prompt = prompt, OF n]
          split: sum.splits)
  next
    assume "\<exists>e. backend n ?req = Fails e \<and> (\<not> isRateLimit_generate e \<or> n = 5)"
    then obtain e where "backend n ?req = Fails e" "\<not> isRateLimit_generate e \<or> n = 5"
      by blast
    then show ?thesis
      by (simp add: generateImage_present [OF assms]
          generateImageWithRetry_last(2)
            [where backend = backend and modelName = "''gemini-2.5-flash-image''"
               and prompt = prompt, OF n])
  qed
  with n(1) show ?thesis
    by blast
qed

lemma ncalls_retry_trace [simp]: "ncalls (retry_trace req n) = Suc n"
  by (simp add: retry_trace_def)

lemma rate_limit_failure_retried: "isRateLimit_generate rate_limit_failure"
  by (simp add: isRateLimit_generate_def rate_limit_failure_def)

text \<open>
  Claim C3 as stated fails: against a backend that always fails with a rate limit,
  \<^verbatim>\<open>generateImage\<close> issues six calls, the first and five retries.
\<close>

theorem generateImage_six_attempts_counterexample:
  "ncalls (snd (generateImage (Some ''key'') always_rate_limited ''a red fox'')) = 6"
proof -
  have key: "''key'' \<noteq> []" by simp
  have prev: "\<forall>j<5. \<exists>e. always_rate_limited j
      (generate_request ''gemini-2.5-flash-image'' ''a red fox'') = Fails e
      \<and> isRateLimit_generate e"
    by (simp add: always_rate_limited_def rate_limit_failure_retried)
  have "generateImageWithRetry always_rate_limited ''gemini-2.5-flash-image'' ''a red fox'' 5 [] =
      (Inl rate_limit_failure,
       retry_trace (generate_request ''gemini-2.5-flash-image'' ''a red fox'') 5)"
    by (rule generateImageWithRetry_last(2)
          [where backend = always_rate_limited and modelName = "''gemini-2.5-flash-image''"
             and prompt = "''a red fox''", OF order_refl prev])
      (simp_all add: always_rate_limited_def)
  then show ?thesis
    by (simp add: generateImage_present [OF key])
qed

text \<open>
  Claim C3, amended. With the credential present, \<^verbatim>\<open>generateImage\<close> calls one fixed
  model with one fixed request and retries only failures that its retry predicate
  accepts. If the attempts before attempt \<open>n\<close> (counted from 0, \<open>n\<close> at most 5) were all
  such failures, the trace is \<open>retry_trace req n\<close>: the retry after the failed call
  number \<open>j\<close> waits \<open>j * 2000\<close> ms, which is \<^verbatim>\<open>(6 - retries) * 2000\<close>. Attempt \<open>n\<close> ends
  the operation when it responds (the result is read from the response, or the error of
  a response without candidates is classified and thrown) and when it fails with a
  failure the predicate rejects or is the sixth attempt (the failure is classified and
  thrown). Whatever the backend does, at most six calls are issued.
\<close>

theorem generateImage_retries:
  assumes "key \<noteq> []"
    and "req = generate_request ''gemini-2.5-flash-image'' prompt"
    and "n \<le> 5"
    and "\<forall>j<n. \<exists>e. backend j req = Fails e \<and> isRateLimit_generate e"
  shows "(backend n req = Responds resp \<and> readResponse resp = Inr res \<longrightarrow>
            generateImage (Some key) backend prompt = (Returns res, retry_trace req n))
       \<and> (backend n req = Responds resp \<and> readResponse resp = Inl err \<longrightarrow>
            generateImage (Some key) backend prompt =
              (Throws (handleGeminiError err), retry_trace req n))
       \<and> (backend n req = Fails e \<and> (\<not> isRateLimit_generate e \<or> n = 5) \<longrightarrow>
            generateImage (Some key) backend prompt =
              (Throws (handleGeminiError e), retry_trace req n))
       \<and> ncalls (snd (generateImage (Some key) backend prompt)) \<le> 6"
proof -
  note prev = assms(4) [unfolded assms(2)]
  have responds: "backend n req = Responds resp \<Longrightarrow>
      generateImage (Some key) backend prompt =
        (case readResponse resp of
           Inr res \<Rightarrow> (Returns res, retry_trace req n)
         | Inl err \<Rightarrow> (Throws (handleGeminiError err), retry_trace req n))"
    unfolding assms(2)
    by (simp add: generateImage_present [OF assms(1)]
        generateImageWithRetry_last(1)
          [where backend = backend and modelName = "''gemini-2.5-flash-image''"
             and prompt = prompt, OF assms(3) prev])
  have fails: "backend n req = Fails e \<Longrightarrow> \<not> isRateLimit_generate e \<or> n = 5 \<Longrightarrow>
      generateImage (Some key) backend prompt =
        (Throws (handleGeminiError e), retry_trace req n)"
    unfolding assms(2)
    by (simp add: generateImage_present [OF assms(1)]
        generateImageWithRetry_last(2)
          [where backend = backend and modelName = "''gemini-2.5-flash-image''"
             and prompt = prompt, OF assms(3) prev])
  from generateImage_trace [OF assms(1), of backend prompt]
  have bound: "ncalls (snd (generateImage (Some key) backend prompt)) \<le> 6"
    by auto
  from responds fails bound show ?thesis
    by auto
qed

theorem generateImage_retries_witness:
  "''key'' \<noteq> []
   \<and> fifth_attempt_backend 3 (generate_request ''gemini-2.5-flash-image'' ''a red fox'') =
       Fails rate_limit_failure
   \<and> isRateLimit_generate rate_limit_failure
   \<and> fifth_attempt_backend 4 (generate_request ''gemini-2.5-flash-image'' ''a red fox'') =
       Responds fox_response
   \<and> generateImage (Some ''key'') fifth_attempt_backend ''a red fox'' =
       (Returns \<lparr>resultImageB64 = Some ''BBBB'', textResponse = ''Here you go''\<rparr>,
        [Call (generate_request ''gemini-2.5-flash-image'' ''a red fox''), Delay 2000,
         Call (generate_request ''gemini-2.5-flash-image'' ''a red fox''), Delay 4000,
         Call (generate_request ''gemini-2.5-flash-image'' ''a red fox''), Delay 6000,
         Call (generate_request ''gemini-2.5-flash-image'' ''a red fox''), Delay 8000,
         Call (generate_request ''gemini-2.5-flash-image'' ''a red fox'')])"
proof -
  have prev: "\<forall>j<4. \<exists>e. fifth_attempt_backend j
      (generate_request ''gemini-2.5-flash-image'' ''a red fox'') = Fails e
      \<and> isRateLimit_generate e"
    by (simp add: fifth_attempt_backend_def rate_limit_failure_retried)
  have rd: "readResponse fox_response =
      Inr \<lparr>resultImageB64 = Some ''BBBB'', textResponse = ''Here you go''\<rparr>"
    by (simp add: readResponse_def fox_response_def fox_parts_def)
  have "generateImage (Some ''key'') fifth_attempt_backend ''a red fox'' =
      (Returns \<lparr>resultImageB64 = Some ''BBBB'', textResponse = ''Here you go''\<rparr>,
       retry_trace (generate_request ''gemini-2.5-flash-image'' ''a red fox'') 4)"
    using generateImage_retries
      [where key = "''key''" and prompt = "''a red fox''" and n = 4
         and backend = fifth_attempt_backend and resp = fox_response
         and req = "generate_request ''gemini-2.5-flash-image'' ''a red fox''"
         and res = "\<lparr>resultImageB64 = Some ''BBBB'', textResponse = ''Here you go''\<rparr>"]
      prev rd
    by (simp add: fifth_attempt_backend_def)
  then show ?thesis
    by (simp add: retry_trace_def eval_nat_numeral fifth_attempt_backend_def
        rate_limit_failure_retried)
qed

subsection \<open>analyzeImage\<close>

lemma analyze_try_present:
  "k \<noteq> [] \<Longrightarrow>
     analyze_try (Some k) backend model img prompt mime tr =
       (analyze_reply (backend (ncalls tr) (analyze_request model img prompt mime)),
        tr @ [Call (analyze_request model img prompt mime)])"
  by (simp add: analyze_try_def getGeminiModel_present issue_def)

lemma analyze_loop_step:
  assumes "k \<noteq> []" and "i < length models"
  shows "analyze_loop (Some k) backend img prompt mime models i lastError tr =
           (case analyze_reply
                   (backend (ncalls tr) (analyze_request (models ! i) img prompt mime)) of
              Inr t \<Rightarrow> (Returns t, tr @ [Call (analyze_request (models ! i) img prompt mime)])
            | Inl error \<Rightarrow>
                if isRateLimit error \<and> Suc i < length models then
                  analyze_loop (Some k) backend img prompt mime models (Suc i) (Some error)
                    (tr @ [Call (analyze_request (models ! i) img prompt mime), Delay 1000])
                else
                  (Throws (handleGeminiError error),
                   tr @ [Call (analyze_request (models ! i) img prompt mime)]))"
proof -
  have last: "(i = length models - Suc 0) = (\<not> Suc i < length models)"
    using assms(2) by arith
  show ?thesis
    by (subst analyze_loop.simps)
      (simp add: analyze_try_present [OF assms(1)] assms(2) last delay_def split: sum.splits)
qed

subsection \<open>Which failures are retried\<close>

lemma generateImageWithRetry_calls:
  "ncalls tr < ncalls (snd (generateImageWithRetry backend modelName prompt retries tr))"
proof (induction backend modelName prompt retries tr rule: generateImageWithRetry.induct)
  case (1 backend modelName prompt retries tr)
  let ?req = "generate_request modelName prompt"
  show ?case
  proof (cases "backend (ncalls tr) ?req")
    case (Responds resp)
    then show ?thesis
      by (simp add: generateImageWithRetry_responds)
  next
    case (Fails e)
    show ?thesis
    proof (cases "isRateLimit_generate e \<and> retries > 0")
      case True
      have att: "(Fails e, tr @ [Call ?req]) = issue backend ?req tr"
        by (simp add: issue_def Fails)
      have "ncalls (delay ((6 - retries) * 2000) (tr @ [Call ?req]))
          < ncalls (snd (generateImageWithRetry backend modelName prompt (retries - 1)
              (delay ((6 - retries) * 2000) (tr @ [Call ?req]))))"
        using "1.IH" [OF att refl True] .
      with Fails True show ?thesis
        by (simp add: generateImageWithRetry_retries delay_def)
    next
      case False
      with Fails show ?thesis
        by (subst generateImageWithRetry_gives_up [where e = e]) auto
    qed
  qed
qed

lemma snd_generateImage_present:
  "key \<noteq> [] \<Longrightarrow>
     snd (generateImage (Some key) backend prompt) =
       snd (generateImageWithRetry backend ''gemini-2.5-flash-image'' prompt 5 [])"
  by (simp add: generateImage_present split: prod.splits sum.splits)

lemma chat_second_call:
  assumes "key \<noteq> []" and "backend 0 (chat_request (chat_models ! 0) msg) = Fails e"
  shows "(1 < ncalls (snd (chatWithGemini (Some key) backend msg))) = isRateLimit e"
proof -
  have first: "chat_attempt backend msg 0 = Inl e"
    by (simp add: chat_attempt_def assms(2) chat_reply_def)
  show ?thesis
    by (simp add: chat_first [OF assms(1)] first chat_second [OF assms(1)]
        chat_third [OF assms(1)] numeral_2_eq_2 split: sum.splits)
qed

lemma analyze_second_call:
  assumes "key \<noteq> []"
    and "backend 0 (analyze_request (analyze_models ! 0) img prompt mime) = Fails e"
  shows "(1 < ncalls (snd (analyzeImage (Some key) backend img prompt mime))) = isRateLimit e"
proof -
  have len: "length analyze_models = Suc (Suc 0)"
    by (simp add: analyze_models_def)
  show ?thesis
    by (simp add: analyzeImage_def analyze_loop_step [OF assms(1)] len assms(2)
        analyze_reply_def split: sum.splits)
qed

lemma edit_second_call:
  assumes "key \<noteq> []" and "backend 0 (edit_request img prompt mime) = Fails e"
  shows "(1 < ncalls (snd (editImage (Some key) backend img prompt mime))) = isRateLimit e"
  by (simp add: editImage_def edit_loop_first [OF assms(1)] edit_loop_second [OF assms(1)]
      assms(2) edit_reply_def split: sum.splits)

lemma generate_second_call:
  assumes "key \<noteq> []"
    and "backend 0 (generate_request ''gemini-2.5-flash-image'' prompt) = Fails e"
  shows "(1 < ncalls (snd (generateImage (Some key) backend prompt))) = isRateLimit_generate e"
proof (cases "isRateLimit_generate e")
  case True
  let ?req = "generate_request ''gemini-2.5-flash-image'' prompt"
  have "generateImageWithRetry backend ''gemini-2.5-flash-image'' prompt 5 [] =
      generateImageWithRetry backend ''gemini-2.5-flash-image'' prompt (5 - 1)
        ([] @ [Call ?req, Delay ((6 - 5) * 2000)])"
    using assms(2) True by (intro generateImageWithRetry_retries) simp_all
  moreover have "ncalls ([] @ [Call ?req, Delay ((6 - 5) * 2000)])
      < ncalls (snd (generateImageWithRetry backend ''gemini-2.5-flash-image'' prompt (5 - 1)
          ([] @ [Call ?req, Delay ((6 - 5) * 2000)])))"
    by (rule generateImageWithRetry_calls)
  ultimately show ?thesis
    using True by (simp add: snd_generateImage_present [OF assms(1)])
next
  case False
  have "generateImageWithRetry backend ''gemini-2.5-flash-image'' prompt 5 [] =
      (Inl e, [] @ [Call (generate_request ''gemini-2.5-flash-image'' prompt)])"
    using assms(2) False by (intro generateImageWithRetry_gives_up) simp_all
  with False show ?thesis
    by (simp add: snd_generateImage_present [OF assms(1)])
qed

text \<open>
  Claim C7 as stated fails: a failure with status 429 whose message contains none of
  \<^verbatim>\<open>429\<close>, \<^verbatim>\<open>quota\<close> and \<^verbatim>\<open>Rate limit\<close> is retried by \<^verbatim>\<open>generateImage\<close>, which
  waits 2000 ms and issues a second call.
\<close>

theorem generateImage_status_check_counterexample:
  "status_only_backend 0 (generate_request ''gemini-2.5-flash-image'' ''a red fox'') =
     Fails status_only_failure
   \<and> \<not> (includes_str (errMsg status_only_failure) ''429''
        \<or> includes_str (errMsg status_only_failure) ''quota''
        \<or> includes_str (errMsg status_only_failure) ''Rate limit'')
   \<and> snd (generateImage (Some ''key'') status_only_backend ''a red fox'') =
       [Call (generate_request ''gemini-2.5-flash-image'' ''a red fox''), Delay 2000,
        Call (generate_request ''gemini-2.5-flash-image'' ''a red fox'')]"
proof -
  have key: "''key'' \<noteq> []" by simp
  have retried: "isRateLimit_generate status_only_failure"
    by (simp add: isRateLimit_generate_def status_only_failure_def)
  have prev: "\<forall>j<1. \<exists>e. status_only_backend j
      (generate_request ''gemini-2.5-flash-image'' ''a red fox'') = Fails e
      \<and> isRateLimit_generate e"
    by (simp add: status_only_backend_def retried)
  have "generateImageWithRetry status_only_backend ''gemini-2.5-flash-image'' ''a red fox'' 5 [] =
      (Inr fox_response, retry_trace (generate_request ''gemini-2.5-flash-image'' ''a red fox'') 1)"
    by (rule generateImageWithRetry_last(1)
          [where backend = status_only_backend and modelName = "''gemini-2.5-flash-image''"
             and prompt = "''a red fox''" and n = 1, OF _ prev])
      (simp_all add: status_only_backend_def)
  then have "snd (generateImage (Some ''key'') status_only_backend ''a red fox'') =
      retry_trace (generate_request ''gemini-2.5-flash-image'' ''a red fox'') 1"
    by (simp add: snd_generateImage_present [OF key])
  then show ?thesis
    by (simp add: retry_trace_def status_only_backend_def errMsg_def status_only_failure_def)
qed

text \<open>
  Claim C7, amended. With the credential present, let the first backend outcome be a
  failure \<open>e\<close>. \<^verbatim>\<open>chatWithGemini\<close>, \<^verbatim>\<open>analyzeImage\<close> and \<^verbatim>\<open>editImage\<close> go on to a
  second call exactly when the message of \<open>e\<close> (the empty string when \<open>e\<close> has none)
  contains \<^verbatim>\<open>429\<close>, \<^verbatim>\<open>quota\<close> or \<^verbatim>\<open>Rate limit\<close>, with no look at the status;
  \<^verbatim>\<open>generateImage\<close> goes on to a second call exactly when the status of \<open>e\<close> equals 429
  or the message contains one of the three.
\<close>

theorem retry_decision_predicates:
  assumes "key \<noteq> []"
    and "\<forall>req. backend 0 req = Fails e"
    and "loose = (includes_str (errMsg e) ''429'' \<or> includes_str (errMsg e) ''quota''
                  \<or> includes_str (errMsg e) ''Rate limit'')"
  shows "(1 < ncalls (snd (chatWithGemini (Some key) backend msg))) = loose
       \<and> (1 < ncalls (snd (analyzeImage (Some key) backend img prompt mime))) = loose
       \<and> (1 < ncalls (snd (editImage (Some key) backend img prompt mime))) = loose
       \<and> (1 < ncalls (snd (generateImage (Some key) backend prompt)))
           = (status e = Num 429 \<or> loose)"
proof -
  have loose: "loose = isRateLimit e"
    by (simp add: assms(3) isRateLimit_def)
  from assms(2) have first: "backend 0 req = Fails e" for req
    by simp
  have chat: "(1 < ncalls (snd (chatWithGemini (Some key) backend msg))) = isRateLimit e"
    by (rule chat_second_call) (simp_all add: assms(1) first)
  have analyze: "(1 < ncalls (snd (analyzeImage (Some key) backend img prompt mime)))
      = isRateLimit e"
    by (rule analyze_second_call) (simp_all add: assms(1) first)
  have edit: "(1 < ncalls (snd (editImage (Some key) backend img prompt mime))) = isRateLimit e"
    by (rule edit_second_call) (simp_all add: assms(1) first)
  have generate: "(1 < ncalls (snd (generateImage (Some key) backend prompt)))
      = (status e = Num 429 \<or> isRateLimit e)"
    unfolding isRateLimit_generate_iff [symmetric]
    by (rule generate_second_call) (simp_all add: assms(1) first)
  from chat analyze edit generate show ?thesis
    unfolding loose by blast
qed

theorem retry_decision_predicates_witness:
  "''key'' \<noteq> []
   \<and> failing_backend status_only_failure 0 (chat_request ''gemini-3.1-pro-preview'' ''hi'') =
       Fails status_only_failure
   \<and> status status_only_failure = Num 429
   \<and> \<not> 1 < ncalls (snd (chatWithGemini (Some ''key'') (failing_backend status_only_failure) ''hi''))
   \<and> \<not> 1 < ncalls (snd (analyzeImage (Some ''key'') (failing_backend status_only_failure)
                             ''img'' ''hi'' ''image/png''))
   \<and> \<not> 1 < ncalls (snd (editImage (Some ''key'') (failing_backend status_only_failure)
                          ''img'' ''hi'' ''image/png''))
   \<and> 1 < ncalls (snd (generateImage (Some ''key'') (failing_backend status_only_failure) ''hi''))"
  using retry_decision_predicates
    [where key = "''key''" and backend = "failing_backend status_only_failure"
       and e = status_only_failure and loose = False and msg = "''hi''" and img = "''img''"
       and prompt = "''hi''" and mime = "''image/png''"]
  by (simp add: failing_backend_def status_only_failure_def errMsg_def)

text \<open>
  The two rate-limit checks differ on such a failure: the chat does not fall back on it,
  and the classifier, which does read the status, reports it as \<^verbatim>\<open>RATE_LIMIT\<close>.
\<close>

lemma chat_status_only_failure:
  "chatWithGemini (Some ''key'') (failing_backend status_only_failure) ''hi'' =
     (Throws (GeminiError
                ''Rate limit exceeded. The system is currently busy. Please wait about 30-60 seconds before trying again.''
                ''RATE_LIMIT'' None),
      [Call (chat_request ''gemini-3.1-pro-preview'' ''hi'')])"
proof -
  have key: "''key'' \<noteq> []" by simp
  have first: "chat_attempt (failing_backend status_only_failure) ''hi'' 0 = Inl status_only_failure"
    by (simp add: chat_attempt_def failing_backend_def chat_reply_def)
  have loose: "\<not> isRateLimit status_only_failure"
    by (simp add: isRateLimit_def errMsg_def status_only_failure_def)
  have kind: "handleGeminiError status_only_failure =
      GeminiError
        ''Rate limit exceeded. The system is currently busy. Please wait about 30-60 seconds before trying again.''
        ''RATE_LIMIT'' None"
    by (simp add: handleGeminiError_def handled_message_def handled_status_def js_or_def
        status_only_failure_def Let_def)
  have model: "chat_models ! 0 = ''gemini-3.1-pro-preview''"
    by (simp add: chat_models_def)
  show ?thesis
    by (simp only: chat_first [OF key] first sum.case loose if_False kind model)
qed

end
